theory Spec2Isabelle
  imports Complex_Main "HOL-Library.Sublist"
begin

section \<open>The language renderer (\<open>AGI_Evolutive/language/renderer.py\<close>)\<close>

text \<open>
  Conventions of the embedding.
  \<^item> A Python \<open>str\<close> is a list of Unicode code points (\<open>nat list\<close>), so that \<open>length\<close> is
    Python's \<open>len\<close>.
  \<^item> A Python \<open>float\<close> is an exact rational (\<open>rat\<close>). Every comparison the renderer makes is
    between such a value and a constant or between two quotients of small integers, and
    keeps its truth value under this reading; sums and products are exact here and rounded
    in Python.
  \<^item> \<open>str.lower\<close> depends on the Unicode case tables, which are not part of the source: it
    is the parameter \<open>lower\<close> of every function that calls it.
  \<^item> What a call reads from its collaborators (voice style, policy confidence, lexicon
    sample, random draw, the architecture's memory) is the record \<open>env\<close>.
\<close>

type_synonym ustring = "nat list"

definition ascii :: "string \<Rightarrow> ustring" where
  "ascii s = map of_char s"

subsection \<open>Python values and dictionaries read by the renderer\<close>

datatype pyval = PyNone | PyBool bool | PyInt int

fun truthy :: "pyval \<Rightarrow> bool" where
  "truthy PyNone = False"
| "truthy (PyBool b) = b"
| "truthy (PyInt i) = (i \<noteq> 0)"

fun is_False :: "pyval option \<Rightarrow> bool" where
  "is_False (Some (PyBool False)) = True"
| "is_False _ = False"

record user_style =
  prefers_long :: "pyval option"

record ctx =
  user_style :: "user_style option"
  last_message :: "ustring option"
  key_moments :: "ustring list option"
  topics :: "ustring list option"

record voice_style =
  formality :: "rat option"
  warmth :: "rat option"
  emoji :: "rat option"
  conciseness :: "rat option"

text \<open>\<open>d.get(k, default)\<close> on an optional entry, and \<open>x or ""\<close> on an optional string.\<close>

definition get_or :: "'a option \<Rightarrow> 'a \<Rightarrow> 'a" where
  "get_or v d = (case v of None \<Rightarrow> d | Some x \<Rightarrow> x)"

definition or_empty :: "'a list option \<Rightarrow> 'a list" where
  "or_empty v = (case v of None \<Rightarrow> [] | Some x \<Rightarrow> x)"

text \<open>\<open>(ctx.get("user_style") or {}).get("prefers_long")\<close>\<close>

definition get_prefers_long :: "ctx \<Rightarrow> pyval option" where
  "get_prefers_long c = (case user_style c of None \<Rightarrow> None | Some u \<Rightarrow> prefers_long u)"

subsection \<open>Tokens\<close>

text \<open>The character class of the regular expression in \<open>_tokens\<close>: U+0041..U+005A (A-Z),
  U+0061..U+007A (a-z) and U+00C0..U+00FF.\<close>

definition tok_char :: "nat \<Rightarrow> bool" where
  "tok_char c \<longleftrightarrow> (65 \<le> c \<and> c \<le> 90) \<or> (97 \<le> c \<and> c \<le> 122) \<or> (192 \<le> c \<and> c \<le> 255)"

definition emit :: "ustring \<Rightarrow> ustring list" where
  "emit cur = (if 3 \<le> length cur then [cur] else [])"

text \<open>
  \<open>re.findall\<close> with the pattern \<open>class{3,}\<close>: the maximal runs of class characters, left to
  right, that have at least three characters. \<open>cur\<close> is the run being read.
\<close>

fun findall :: "ustring \<Rightarrow> ustring \<Rightarrow> ustring list" where
  "findall cur [] = emit cur"
| "findall cur (c # cs) =
     (if tok_char c then findall (cur @ [c]) cs else emit cur @ findall [] cs)"

definition tokens :: "(ustring \<Rightarrow> ustring) \<Rightarrow> ustring option \<Rightarrow> ustring set" where
  "tokens lower s = set (findall [] (lower (or_empty s)))"

subsection \<open>The renderer's state and thresholds\<close>

datatype kind = Past | Colloc

record renderer =
  cooldown :: "kind \<Rightarrow> rat"
  last_used :: "kind \<Rightarrow> ustring"

definition init :: renderer where
  "init = \<lparr>cooldown = (\<lambda>k. 0), last_used = (\<lambda>k. [])\<rparr>"

definition past_relevance :: rat where "past_relevance = 0.25"
definition colloc_relevance :: rat where "colloc_relevance = 0.20"
definition conf_min :: rat where "conf_min = 0.55"
definition chance_colloc :: rat where "chance_colloc = 0.35"

subsection \<open>Utilities\<close>

text \<open>
  What \<open>self.voice.self_model.arch.policy\<close> gives: the attribute chain or the call raises,
  the policy has no \<open>confidence\<close>, or \<open>float(pol.confidence())\<close> is a value.
\<close>

datatype policy = PolicyRaises | NoConfidence | Confidence rat

fun confidence :: "policy \<Rightarrow> rat" where
  "confidence (Confidence c) = c"
| "confidence _ = 0.6"

definition budget_chars :: "voice_style \<Rightarrow> ctx \<Rightarrow> int" where
  "budget_chars st c =
     (let base = 160;
          base = (if (case get_prefers_long c of None \<Rightarrow> False | Some v \<Rightarrow> truthy v)
                  then base + 80 else base);
          base = (if get_or (conciseness st) 0.6 > 0.7 then base - 60 else base)
      in max 0 base)"

definition decrease_cooldowns :: "renderer \<Rightarrow> renderer" where
  "decrease_cooldowns self = self\<lparr>cooldown := (\<lambda>k. max 0 (cooldown self k - 0.34))\<rparr>"

subsection \<open>Selection of a link to the past\<close>

text \<open>\<open>len(utoks & mtoks) / max(1, len(utoks | mtoks))\<close>\<close>

definition jacc :: "ustring set \<Rightarrow> ustring set \<Rightarrow> rat" where
  "jacc utoks mtoks = of_nat (card (utoks \<inter> mtoks)) / of_nat (max 1 (card (utoks \<union> mtoks)))"

text \<open>The loop over \<open>moments[-8:]\<close>, with the pair \<open>(best, score)\<close> as its state.\<close>

fun scan_moments ::
  "(ustring \<Rightarrow> ustring) \<Rightarrow> ustring set \<Rightarrow> ustring list \<Rightarrow> ustring \<times> rat \<Rightarrow> ustring \<times> rat" where
  "scan_moments lower utoks [] (best, score) = (best, score)"
| "scan_moments lower utoks (m # ms) (best, score) =
     (let mtoks = tokens lower (Some m)
      in if mtoks = {} then scan_moments lower utoks ms (best, score)
         else let j = jacc utoks mtoks
              in if j > score then scan_moments lower utoks ms (m, j)
                 else scan_moments lower utoks ms (best, score))"

definition last8 :: "'a list \<Rightarrow> 'a list" where
  "last8 ms = drop (length ms - 8) ms"

definition pick_relevant_moment ::
  "(ustring \<Rightarrow> ustring) \<Rightarrow> ustring option \<Rightarrow> ctx \<Rightarrow> ustring \<times> rat" where
  "pick_relevant_moment lower user_msg c =
     (let moments = or_empty (key_moments c)
      in if moments = [] then ([], 0)
         else scan_moments lower (tokens lower user_msg) (last8 moments) ([], 0))"

subsection \<open>Selection of a collocation\<close>

text \<open>\<open>cand\<close> is what \<open>self.lex.sample_collocation(novelty=0.3)\<close> returned (\<open>None\<close> as \<open>None\<close>).\<close>

definition pick_collocation ::
  "(ustring \<Rightarrow> ustring) \<Rightarrow> ustring option \<Rightarrow> ctx \<Rightarrow> ustring \<times> rat" where
  "pick_collocation lower cand c =
     (let tps = set (or_empty (topics c))
      in if or_empty cand = [] then ([], 0)
         else (or_empty cand,
               of_nat (card (tokens lower cand \<inter> tps)) / of_nat (max 1 (card (tokens lower cand)))))"

subsection \<open>Voice decoration\<close>

definition s_bonjour :: ustring where "s_bonjour = ascii ''bonjour''"
definition s_bonsoir :: ustring where "s_bonsoir = ascii ''bonsoir''"
definition s_greeting :: ustring where "s_greeting = ascii ''Bonjour, ''"
definition s_dispo :: ustring where "s_dispo = ascii '' (je reste dispo si besoin)''"

text \<open>U+1F642 and a space.\<close>
definition s_emoji :: ustring where "s_emoji = [128578, 32]"

definition endswith_bang :: "ustring \<Rightarrow> bool" where
  "endswith_bang t \<longleftrightarrow> t \<noteq> [] \<and> last t = 33"

definition decorate_with_voice :: "(ustring \<Rightarrow> ustring) \<Rightarrow> voice_style \<Rightarrow> ustring \<Rightarrow> ustring" where
  "decorate_with_voice lower st text =
     (let text = (if get_or (formality st) 0.4 > 0.75
                     \<and> \<not> (prefix s_bonjour (lower text) \<or> prefix s_bonsoir (lower text))
                  then s_greeting @ text else text);
          text = (if get_or (warmth st) 0.6 > 0.75 \<and> \<not> endswith_bang text
                  then text @ s_dispo else text);
          text = (if get_or (emoji st) 0.2 > 0.6 then s_emoji @ text else text)
      in text)"

subsection \<open>The reply\<close>

text \<open>
  The characters \<open>str.strip()\<close> removes (those with \<open>str.isspace\<close>): U+0009..U+000D,
  U+001C..U+0020, U+0085, U+00A0, U+1680, U+2000..U+200A, U+2028, U+2029, U+202F, U+205F, U+3000.
\<close>

definition is_space :: "nat \<Rightarrow> bool" where
  "is_space c \<longleftrightarrow> (9 \<le> c \<and> c \<le> 13) \<or> (28 \<le> c \<and> c \<le> 32) \<or> c = 133 \<or> c = 160 \<or> c = 5760
     \<or> (8192 \<le> c \<and> c \<le> 8202) \<or> c = 8232 \<or> c = 8233 \<or> c = 8239 \<or> c = 8287 \<or> c = 12288"

definition strip :: "ustring \<Rightarrow> ustring" where
  "strip s = rev (dropWhile is_space (rev (dropWhile is_space s)))"

text \<open>The fallback sentence; 233 is U+00E9.\<close>

definition fallback :: ustring where
  "fallback = ascii ''Je te r'' @ [233] @ ascii ''ponds en tenant compte de notre historique.''"

text \<open>The two snippets: two newlines, U+21AA and \<open>" En lien : "\<close>; two newlines and parentheses.\<close>

definition past_snippet :: "ustring \<Rightarrow> ustring" where
  "past_snippet past_txt = [10, 10, 8618] @ ascii '' En lien : '' @ past_txt"

definition colloc_snippet :: "ustring \<Rightarrow> ustring" where
  "colloc_snippet colloc_txt = [10, 10, 40] @ colloc_txt @ [41]"

definition p_try :: "rat \<Rightarrow> rat" where
  "p_try conf = chance_colloc * (0.6 + 0.6 * conf)"

subsection \<open>The decision recorder\<close>

type_synonym pydict = "(string \<times> ustring) list"

datatype 'a outcome = Raises | Returns 'a

text \<open>
  A rule object: \<open>to_dict\<close> and \<open>register_use\<close> are \<open>None\<close> when the object has no such
  attribute; \<open>to_dict_used\<close> is what \<open>to_dict()\<close> gives once \<open>register_use()\<close> has run.
\<close>

record rule_object =
  to_dict :: "pydict outcome option"
  register_use :: "unit outcome option"
  to_dict_used :: "pydict outcome"

datatype rule_obj = RuleMapping pydict | RuleObject rule_object

text \<open>The entries \<open>text\<close>, \<open>rule\<close> and \<open>interaction_rule\<close> of the semantics mapping.\<close>

record semantics =
  sem_text :: "ustring option"
  sem_rule :: "rule_obj option"
  sem_interaction_rule :: "rule_obj option"

type_synonym snapshot = "(string \<times> int) list"

datatype mem_call =
    AddTrace ustring "ustring option" snapshot rat
  | AddMemory pydict
  | UpdateMemory pydict

text \<open>
  The architecture behind \<open>self.voice.self_model.arch\<close>. \<open>memory\<close> is the log of the calls the
  store has received, \<open>None\<close> when the architecture or its memory is missing or falsy.
  \<open>ContextBuilder\<close> is imported from a module that is not part of the source: \<open>build\<close> is
  what importing it and calling \<open>ContextBuilder.build\<close> with the given count of pending
  questions gives.
\<close>

record architecture =
  memory :: "mem_call list option"
  memory_raises :: bool
  has_update_memory :: bool
  pending_questions :: "ustring list option"
  build :: "nat \<Rightarrow> snapshot outcome"

record env =
  style :: voice_style
  pol :: policy
  lex_sample :: "ustring option"
  random :: rat
  now :: rat
  arch :: architecture

text \<open>\<open>not rule_obj\<close>: \<open>None\<close> and the empty mapping are falsy, an object is truthy.\<close>

fun falsy_rule :: "rule_obj option \<Rightarrow> bool" where
  "falsy_rule None = True"
| "falsy_rule (Some (RuleMapping d)) = (d = [])"
| "falsy_rule (Some (RuleObject ob)) = False"

definition attached_rule :: "semantics \<Rightarrow> rule_obj option" where
  "attached_rule sem = (if falsy_rule (sem_rule sem) then sem_interaction_rule sem else sem_rule sem)"

text \<open>The pair \<open>(rule_id, rule_dict)\<close> of lines 153 to 161, or the exception of \<open>to_dict()\<close>.\<close>

fun resolve_rule :: "rule_obj option \<Rightarrow> (ustring option \<times> pydict option) outcome" where
  "resolve_rule None = Returns (None, None)"
| "resolve_rule (Some (RuleMapping d)) = Returns (map_of d ''id'', Some d)"
| "resolve_rule (Some (RuleObject ob)) =
     (case to_dict ob of
        None \<Rightarrow> Returns (None, None)
      | Some Raises \<Rightarrow> Raises
      | Some (Returns d) \<Rightarrow> Returns (map_of d ''id'', Some d))"

text \<open>The inner \<open>try\<close> of lines 180 to 190, on the log of the store.\<close>

definition register_rule_use ::
  "architecture \<Rightarrow> rule_obj option \<Rightarrow> mem_call list \<Rightarrow> mem_call list" where
  "register_rule_use a rule_ob lg =
     (case rule_ob of
        Some (RuleObject ob) \<Rightarrow>
          (case register_use ob of
             Some (Returns u) \<Rightarrow>
               (case (if to_dict ob = None then Raises else to_dict_used ob) of
                  Returns payload \<Rightarrow>
                    if payload = [] \<or> memory_raises a then lg
                    else if has_update_memory a then lg @ [UpdateMemory payload]
                    else lg @ [AddMemory payload]
                | Raises \<Rightarrow> lg)
           | _ \<Rightarrow> lg)
      | _ \<Rightarrow> lg)"

text \<open>The outer \<open>try\<close> of lines 149 to 192: the architecture after it.\<close>

definition record_decision :: "semantics \<Rightarrow> rat \<Rightarrow> architecture \<Rightarrow> architecture" where
  "record_decision sem ts a =
     (let rule_ob = attached_rule sem
      in case resolve_rule rule_ob of
           Raises \<Rightarrow> a
         | Returns (rule_id, rule_dict) \<Rightarrow>
             if or_empty rule_id = [] then a
             else (case memory a of
                     None \<Rightarrow> a
                   | Some lg \<Rightarrow>
                       (case build a (length (or_empty (pending_questions a))) of
                          Raises \<Rightarrow> a
                        | Returns pre_ctx \<Rightarrow>
                            if memory_raises a then a
                            else a\<lparr>memory := Some (register_rule_use a rule_ob
                                   (lg @ [AddTrace (or_empty rule_id)
                                            (map_of (or_empty rule_dict) ''tactic'') pre_ctx ts]))\<rparr>)))"

subsection \<open>\<open>render_reply\<close>\<close>

text \<open>Line 102: the stripped \<open>text\<close> of the semantics, or the fallback sentence.\<close>

definition base_text :: "semantics \<Rightarrow> ustring" where
  "base_text sem = (let t = strip (or_empty (sem_text sem)) in if t = [] then fallback else t)"

text \<open>Line 107; 63 is the question mark.\<close>

definition is_direct_question :: "ctx \<Rightarrow> bool" where
  "is_direct_question c \<longleftrightarrow> 63 \<in> set (or_empty (last_message c))"

text \<open>The condition of line 108.\<close>

definition short_circuit :: "env \<Rightarrow> ctx \<Rightarrow> bool" where
  "short_circuit e c \<longleftrightarrow>
     confidence (pol e) < conf_min \<or> budget_chars (style e) c < 60 \<or> is_False (get_prefers_long c)"

text \<open>Lines 113 to 119 and 124 to 130, on the renderer whose cooldowns have been decreased.\<close>

definition use_past :: "renderer \<Rightarrow> ctx \<Rightarrow> ustring \<Rightarrow> rat \<Rightarrow> bool" where
  "use_past self c past_txt past_rel \<longleftrightarrow>
     past_txt \<noteq> [] \<and> past_rel \<ge> past_relevance \<and> cooldown self Past \<le> 0
     \<and> past_txt \<noteq> last_used self Past \<and> \<not> is_direct_question c"

definition use_colloc :: "renderer \<Rightarrow> env \<Rightarrow> ustring \<Rightarrow> rat \<Rightarrow> bool" where
  "use_colloc self e colloc_txt colloc_rel \<longleftrightarrow>
     colloc_txt \<noteq> [] \<and> random e < p_try (confidence (pol e)) \<and> colloc_rel \<ge> colloc_relevance
     \<and> cooldown self Colloc \<le> 0 \<and> colloc_txt \<noteq> last_used self Colloc"

text \<open>The result is the returned string, the renderer after the call and the architecture after it.\<close>

definition render_reply ::
  "(ustring \<Rightarrow> ustring) \<Rightarrow> env \<Rightarrow> renderer \<Rightarrow> semantics \<Rightarrow> ctx \<Rightarrow> ustring \<times> renderer \<times> architecture" where
  "render_reply lower e self0 sem c =
     (let self = decrease_cooldowns self0;
          base = base_text sem;
          budget = budget_chars (style e) c
      in if short_circuit e c
         then (decorate_with_voice lower (style e) base, self, arch e)
         else
           (let (past_txt, past_rel) = pick_relevant_moment lower (last_message c) c;
                (colloc_txt, colloc_rel) = pick_collocation lower (lex_sample e) c;
                out = decorate_with_voice lower (style e) base
            in if use_past self c past_txt past_rel \<and> int (length (past_snippet past_txt)) \<le> budget
               then (out @ past_snippet past_txt,
                     self\<lparr>cooldown := (cooldown self)(Past := 2),
                          last_used := (last_used self)(Past := past_txt)\<rparr>,
                     arch e)
               else
                 (let (out, self) =
                        (if use_colloc self e colloc_txt colloc_rel
                            \<and> int (length (colloc_snippet colloc_txt)) \<le> budget
                         then (out @ colloc_snippet colloc_txt,
                               self\<lparr>cooldown := (cooldown self)(Colloc := 2),
                                    last_used := (last_used self)(Colloc := colloc_txt)\<rparr>)
                         else (out, self))
                  in (out, self, record_decision sem (now e) (arch e)))))"

subsection \<open>Sequences of calls on one renderer\<close>

record call =
  call_env :: env
  call_sem :: semantics
  call_ctx :: ctx

text \<open>The strings returned by consecutive calls, and the renderer after the last one.\<close>

fun run :: "(ustring \<Rightarrow> ustring) \<Rightarrow> renderer \<Rightarrow> call list \<Rightarrow> ustring list \<times> renderer" where
  "run lower self [] = ([], self)"
| "run lower self (x # xs) =
     (let (out, self1, a) = render_reply lower (call_env x) self (call_sem x) (call_ctx x);
          (outs, self2) = run lower self1 xs
      in (out # outs, self2))"

text \<open>The voice-decorated base text of a call, and what a returned string has after it.\<close>

definition plain :: "(ustring \<Rightarrow> ustring) \<Rightarrow> call \<Rightarrow> ustring" where
  "plain lower x = decorate_with_voice lower (style (call_env x)) (base_text (call_sem x))"

definition ornament :: "(ustring \<Rightarrow> ustring) \<Rightarrow> call \<Rightarrow> ustring \<Rightarrow> ustring" where
  "ornament lower x out = drop (length (plain lower x)) out"

text \<open>What each call of a sequence appended, and the two kinds of ornament by their markers.\<close>

definition ornaments :: "(ustring \<Rightarrow> ustring) \<Rightarrow> call list \<Rightarrow> ustring list \<Rightarrow> ustring list" where
  "ornaments lower xs outs = map (\<lambda>(x, out). ornament lower x out) (zip xs outs)"

definition is_past_ornament :: "ustring \<Rightarrow> bool" where
  "is_past_ornament t \<longleftrightarrow> prefix [10, 10, 8618] t"

definition is_colloc_ornament :: "ustring \<Rightarrow> bool" where
  "is_colloc_ornament t \<longleftrightarrow> prefix [10, 10, 40] t"

subsection \<open>Concrete inputs\<close>

text \<open>
  \<open>str.lower\<close> on strings of ASCII and Latin-1 characters: the capitals U+0041..U+005A and
  U+00C0..U+00DE (without the multiplication sign U+00D7) move up by 32.
\<close>

definition lower_latin1 :: "ustring \<Rightarrow> ustring" where
  "lower_latin1 s =
     map (\<lambda>c. if (65 \<le> c \<and> c \<le> 90) \<or> (192 \<le> c \<and> c \<le> 222 \<and> c \<noteq> 215) then c + 32 else c) s"

text \<open>
  A neutral voice, a working memory store, a policy with confidence 0.8, no collocation; a
  context without user style whose last message shares two of its three tokens with the one
  key moment; semantics with a text and a rule mapping that has an identifier.
\<close>

definition ex_style :: voice_style where
  "ex_style = \<lparr>formality = None, warmth = None, emoji = None, conciseness = None\<rparr>"

definition ex_arch :: architecture where
  "ex_arch = \<lparr>memory = Some [], memory_raises = False, has_update_memory = False,
              pending_questions = None,
              build = (\<lambda>n. Returns [(''pending_questions_count'', int n)])\<rparr>"

definition ex_env :: env where
  "ex_env = \<lparr>style = ex_style, pol = Confidence 0.8, lex_sample = None, random = 0.9, now = 0,
             arch = ex_arch\<rparr>"

definition ex_env_low :: env where
  "ex_env_low = ex_env\<lparr>pol := Confidence 0.3\<rparr>"

definition ex_ctx :: ctx where
  "ex_ctx = \<lparr>user_style = None, last_message = Some (ascii ''about the move''),
             key_moments = Some [ascii ''the move''], topics = None\<rparr>"

definition ex_sem :: semantics where
  "ex_sem = \<lparr>sem_text = Some (ascii '' Sure. ''),
             sem_rule = Some (RuleMapping [(''id'', ascii ''r1'')]), sem_interaction_rule = None\<rparr>"

text \<open>A short-circuited call, and two renderers whose cooldowns are not at zero.\<close>

definition ex_call_low :: call where
  "ex_call_low = \<lparr>call_env = ex_env_low, call_sem = ex_sem, call_ctx = ex_ctx\<rparr>"

definition ex_warm :: renderer where
  "ex_warm = init\<lparr>cooldown := (\<lambda>k. 0.3)\<rparr>"

definition ex_hot :: renderer where
  "ex_hot = init\<lparr>cooldown := (\<lambda>k. 1)\<rparr>"

section \<open>Properties\<close>

subsection \<open>Shape of a call\<close>

lemma past_snippet_nonempty: "past_snippet t \<noteq> []"
  by (simp add: past_snippet_def)

lemma colloc_snippet_nonempty: "colloc_snippet t \<noteq> []"
  by (simp add: colloc_snippet_def)

lemma render_reply_cases:
  "render_reply lower e s sem c =
     (let D = decrease_cooldowns s;
          P = decorate_with_voice lower (style e) (base_text sem);
          pm = pick_relevant_moment lower (last_message c) c;
          pc = pick_collocation lower (lex_sample e) c
      in if short_circuit e c then (P, D, arch e)
         else if use_past D c (fst pm) (snd pm) \<and> int (length (past_snippet (fst pm))) \<le> budget_chars (style e) c
         then (P @ past_snippet (fst pm),
               D\<lparr>cooldown := (cooldown D)(Past := 2), last_used := (last_used D)(Past := fst pm)\<rparr>, arch e)
         else if use_colloc D e (fst pc) (snd pc) \<and> int (length (colloc_snippet (fst pc))) \<le> budget_chars (style e) c
         then (P @ colloc_snippet (fst pc),
               D\<lparr>cooldown := (cooldown D)(Colloc := 2), last_used := (last_used D)(Colloc := fst pc)\<rparr>,
               record_decision sem (now e) (arch e))
         else (P, D, record_decision sem (now e) (arch e)))"
  by (simp add: render_reply_def Let_def split: prod.splits)

lemma fallback_nonempty: "fallback \<noteq> []"
  by (simp add: fallback_def ascii_def)

lemma base_text_nonempty: "base_text sem \<noteq> []"
  by (simp add: base_text_def Let_def fallback_nonempty)

lemma decorate_nonempty: "t \<noteq> [] \<Longrightarrow> decorate_with_voice lower st t \<noteq> []"
  by (simp add: decorate_with_voice_def Let_def)

lemma snippets_differ: "past_snippet a \<noteq> colloc_snippet b"
  by (simp add: past_snippet_def colloc_snippet_def)

lemma past_snippet_inj: "past_snippet a = past_snippet b \<longleftrightarrow> a = b"
  by (simp add: past_snippet_def)

lemma colloc_snippet_inj: "colloc_snippet a = colloc_snippet b \<longleftrightarrow> a = b"
  by (simp add: colloc_snippet_def)

lemma past_snippet_is_past: "is_past_ornament (past_snippet a) \<and> \<not> is_colloc_ornament (past_snippet a)"
  by (simp add: past_snippet_def is_past_ornament_def is_colloc_ornament_def)

lemma colloc_snippet_is_colloc: "is_colloc_ornament (colloc_snippet a) \<and> \<not> is_past_ornament (colloc_snippet a)"
  by (simp add: colloc_snippet_def is_past_ornament_def is_colloc_ornament_def)

lemma empty_is_no_ornament: "\<not> is_past_ornament [] \<and> \<not> is_colloc_ornament []"
  by (simp add: is_past_ornament_def is_colloc_ornament_def)

text \<open>One call: what is appended and what happens to the renderer.\<close>

lemma render_reply_step:
  assumes "render_reply lower (call_env x) s (call_sem x) (call_ctx x) = (out, s1, a)"
  shows "(ornament lower x out = [] \<and> s1 = decrease_cooldowns s)
       \<or> (\<exists>t. ornament lower x out = past_snippet t \<and> t \<noteq> last_used s Past
              \<and> cooldown s Past \<le> 0.34
              \<and> s1 = (decrease_cooldowns s)\<lparr>cooldown := (cooldown (decrease_cooldowns s))(Past := 2),
                        last_used := (last_used (decrease_cooldowns s))(Past := t)\<rparr>)
       \<or> (\<exists>t. ornament lower x out = colloc_snippet t \<and> t \<noteq> last_used s Colloc
              \<and> cooldown s Colloc \<le> 0.34
              \<and> s1 = (decrease_cooldowns s)\<lparr>cooldown := (cooldown (decrease_cooldowns s))(Colloc := 2),
                        last_used := (last_used (decrease_cooldowns s))(Colloc := t)\<rparr>)"
  using assms
  by (auto simp: render_reply_cases Let_def ornament_def plain_def use_past_def use_colloc_def
      decrease_cooldowns_def split: if_splits)

lemma run_Cons:
  "run lower s (x # xs) =
     (fst (render_reply lower (call_env x) s (call_sem x) (call_ctx x))
        # fst (run lower (fst (snd (render_reply lower (call_env x) s (call_sem x) (call_ctx x)))) xs),
      snd (run lower (fst (snd (render_reply lower (call_env x) s (call_sem x) (call_ctx x)))) xs))"
  by (simp add: Let_def split: prod.splits)

declare run.simps(2) [simp del]

lemma length_run: "length (fst (run lower s xs)) = length xs"
  by (induction xs arbitrary: s) (simp_all add: run_Cons)

lemma decay_step:
  "max 0 (max 0 (a - 0.34) - 0.34 * of_nat n) = max 0 ((a::rat) - 0.34 * of_nat (Suc n))"
  by (simp add: max_def algebra_simps)

lemma plain_call_decays:
  assumes "fst (render_reply lower (call_env x) s (call_sem x) (call_ctx x)) = plain lower x"
  shows "fst (snd (render_reply lower (call_env x) s (call_sem x) (call_ctx x))) = decrease_cooldowns s"
proof -
  obtain out s1 a where r: "render_reply lower (call_env x) s (call_sem x) (call_ctx x) = (out, s1, a)"
    by (cases "render_reply lower (call_env x) s (call_sem x) (call_ctx x)") auto
  with assms have "ornament lower x out = []" by (simp add: ornament_def)
  with render_reply_step [OF r] have "s1 = decrease_cooldowns s"
    by (auto simp: past_snippet_def colloc_snippet_def)
  with r show ?thesis by simp
qed

lemma run_plain_decay:
  "fst (run lower s xs) = map (plain lower) xs \<Longrightarrow> xs \<noteq> [] \<Longrightarrow>
   cooldown (snd (run lower s xs)) k = max 0 (cooldown s k - 0.34 * of_nat (length xs))"
proof (induction xs arbitrary: s)
  case Nil
  then show ?case by simp
next
  case (Cons x xs)
  let ?r = "render_reply lower (call_env x) s (call_sem x) (call_ctx x)"
  from Cons.prems(1) have hd: "fst ?r = plain lower x"
    and tl: "fst (run lower (fst (snd ?r)) xs) = map (plain lower) xs"
    by (simp_all add: run_Cons)
  from plain_call_decays [OF hd] have s1: "fst (snd ?r) = decrease_cooldowns s" .
  have c1: "cooldown (decrease_cooldowns s) k = max 0 (cooldown s k - 0.34)"
    by (simp add: decrease_cooldowns_def)
  show ?case
  proof (cases "xs = []")
    case True
    then show ?thesis by (simp add: run_Cons s1 c1)
  next
    case False
    have "cooldown (snd (run lower s (x # xs))) k
          = cooldown (snd (run lower (decrease_cooldowns s) xs)) k"
      by (simp add: run_Cons s1)
    also have "\<dots> = max 0 (cooldown (decrease_cooldowns s) k - 0.34 * of_nat (length xs))"
      by (rule Cons.IH [OF tl [unfolded s1] False])
    also have "\<dots> = max 0 (max 0 (cooldown s k - 0.34) - 0.34 * of_nat (length xs))"
      by (simp only: c1)
    also have "\<dots> = max 0 (cooldown s k - 0.34 * of_nat (Suc (length xs)))"
      by (rule decay_step)
    finally show ?thesis by simp
  qed
qed

lemma render_reply_cooldown_nonneg:
  "0 \<le> cooldown (fst (snd (render_reply lower e s sem c))) k"
  by (simp add: render_reply_cases Let_def decrease_cooldowns_def)

lemma run_cooldown_nonneg:
  "xs \<noteq> [] \<or> 0 \<le> cooldown s k \<Longrightarrow> 0 \<le> cooldown (snd (run lower s xs)) k"
proof (induction xs arbitrary: s)
  case Nil
  then show ?case by simp
next
  case (Cons x xs)
  have "0 \<le> cooldown (fst (snd (render_reply lower (call_env x) s (call_sem x) (call_ctx x)))) k"
    by (rule render_reply_cooldown_nonneg)
  then show ?case
    using Cons.IH by (simp add: run_Cons)
qed

lemma distinct_adj_filter_run:
  "distinct_adj (filter is_past_ornament (ornaments lower xs (fst (run lower s xs))))
   \<and> (\<forall>o1 \<in> set (take 1 (filter is_past_ornament (ornaments lower xs (fst (run lower s xs))))).
         o1 \<noteq> past_snippet (last_used s Past))"
proof (induction xs arbitrary: s)
  case Nil
  then show ?case by (simp add: ornaments_def)
next
  case (Cons x xs)
  obtain out s1 a where r: "render_reply lower (call_env x) s (call_sem x) (call_ctx x) = (out, s1, a)"
    by (cases "render_reply lower (call_env x) s (call_sem x) (call_ctx x)") auto
  let ?rest = "filter is_past_ornament (ornaments lower xs (fst (run lower s1 xs)))"
  have orn: "ornaments lower (x # xs) (fst (run lower s (x # xs)))
             = ornament lower x out # ornaments lower xs (fst (run lower s1 xs))"
    by (simp add: ornaments_def run_Cons r)
  from Cons.IH [of s1] have d: "distinct_adj ?rest"
    and h: "\<forall>o1 \<in> set (take 1 ?rest). o1 \<noteq> past_snippet (last_used s1 Past)"
    by simp_all
  from render_reply_step [OF r] show ?case
  proof (elim disjE exE conjE)
    assume "ornament lower x out = []" "s1 = decrease_cooldowns s"
    with d h show ?thesis
      by (simp add: orn empty_is_no_ornament decrease_cooldowns_def)
  next
    fix t
    assume o: "ornament lower x out = past_snippet t" and ne: "t \<noteq> last_used s Past"
      and s1: "s1 = (decrease_cooldowns s)\<lparr>cooldown := (cooldown (decrease_cooldowns s))(Past := 2),
                        last_used := (last_used (decrease_cooldowns s))(Past := t)\<rparr>"
    from s1 have lu: "last_used s1 Past = t" by simp
    from h lu have "?rest = [] \<or> hd ?rest \<noteq> past_snippet t"
      by (cases ?rest) auto
    with d have "distinct_adj (past_snippet t # ?rest)"
      by (cases ?rest) auto
    with ne show ?thesis
      by (simp add: orn o past_snippet_is_past past_snippet_inj)
  next
    fix t
    assume o: "ornament lower x out = colloc_snippet t"
      and s1: "s1 = (decrease_cooldowns s)\<lparr>cooldown := (cooldown (decrease_cooldowns s))(Colloc := 2),
                        last_used := (last_used (decrease_cooldowns s))(Colloc := t)\<rparr>"
    from s1 have lu: "last_used s1 Past = last_used s Past" by (simp add: decrease_cooldowns_def)
    with d h show ?thesis
      by (simp add: orn o colloc_snippet_is_colloc)
  qed
qed

subsection \<open>The concrete inputs, evaluated\<close>

lemma ex_pm: "pick_relevant_moment lower_latin1 (last_message ex_ctx) ex_ctx = (ascii ''the move'', 2/3)"
  by code_simp

lemma ex_plain: "decorate_with_voice lower_latin1 (style ex_env) (base_text ex_sem) = ascii ''Sure.''"
  by code_simp

lemma ex_hyp: "use_past (decrease_cooldowns init) ex_ctx (ascii ''the move'') (2/3)"
  by code_simp

lemma ex_fit: "int (length (past_snippet (ascii ''the move''))) \<le> budget_chars (style ex_env) ex_ctx"
  by code_simp

lemma ex_nsc: "\<not> short_circuit ex_env ex_ctx"
  by code_simp

lemma ex_low_sc: "short_circuit ex_env_low ex_ctx"
  by code_simp

lemma ex_low_call:
  "render_reply lower_latin1 (call_env ex_call_low) s (call_sem ex_call_low) (call_ctx ex_call_low)
   = (plain lower_latin1 ex_call_low, decrease_cooldowns s, arch ex_env_low)"
  by (simp add: render_reply_cases Let_def ex_call_low_def ex_low_sc plain_def)

lemma ex_low_run3:
  "run lower_latin1 s [ex_call_low, ex_call_low, ex_call_low]
   = ([plain lower_latin1 ex_call_low, plain lower_latin1 ex_call_low, plain lower_latin1 ex_call_low],
      decrease_cooldowns (decrease_cooldowns (decrease_cooldowns s)))"
  by (simp add: run_Cons ex_low_call)

lemma ex_hyp_warm: "use_past (decrease_cooldowns ex_warm) ex_ctx (ascii ''the move'') (2/3)"
  by code_simp

subsection \<open>The claims\<close>

text \<open>
  C10. Whatever the context and the voice style, the ornament budget is at least 100: it is
  160, plus 80 only when \<open>prefers_long\<close> is truthy, minus 60 only when the conciseness
  exceeds 0.7. So \<open>budget < 60\<close> never holds, the clamp at 0 never changes the value, and the
  short circuit of \<open>render_reply\<close> is decided by the confidence and the explicit
  \<open>prefers_long = False\<close> alone.
\<close>

theorem budget_chars_at_least_100:
  "100 \<le> budget_chars st c
   \<and> \<not> budget_chars st c < 60
   \<and> budget_chars st c =
       160 + (if (case get_prefers_long c of None \<Rightarrow> False | Some v \<Rightarrow> truthy v) then 80 else 0)
           - (if get_or (conciseness st) 0.6 > 0.7 then 60 else 0)
   \<and> short_circuit e c = (confidence (pol e) < conf_min \<or> is_False (get_prefers_long c))"
  by (simp add: budget_chars_def Let_def short_circuit_def)

text \<open>
  C5, as stated, at confidence 1: the attempt probability is 0.42, more than 0.1 away from
  the 0.56 of the claim.
\<close>

theorem p_try_at_full_confidence: "p_try 1 = 0.42 \<and> \<bar>p_try 1 - 0.56\<bar> > 0.1"
  by (simp add: p_try_def chance_colloc_def)

text \<open>
  C5, amended. The attempt probability of a collocation is the base rate 0.35 times
  \<open>0.6 + 0.6 * confidence\<close>; it is 0.21 at confidence 0 and 0.42 at confidence 1, and stays
  between the two for a confidence in between. It is the bound of the random draw in the
  collocation's eligibility.
\<close>

theorem p_try_range:
  "p_try conf = 0.35 * (0.6 + 0.6 * conf) \<and> p_try 0 = 0.21 \<and> p_try 1 = 0.42
   \<and> (0 \<le> conf \<and> conf \<le> 1 \<longrightarrow> 0.21 \<le> p_try conf \<and> p_try conf \<le> 0.42)
   \<and> use_colloc self e colloc_txt colloc_rel =
       (colloc_txt \<noteq> [] \<and> random e < p_try (confidence (pol e)) \<and> colloc_rel \<ge> colloc_relevance
        \<and> cooldown self Colloc \<le> 0 \<and> colloc_txt \<noteq> last_used self Colloc)"
  by (simp add: p_try_def chance_colloc_def use_colloc_def)

theorem p_try_range_witness:
  "(0::rat) \<le> 1/2 \<and> (1/2::rat) \<le> 1 \<and> 0.21 \<le> p_try (1/2) \<and> p_try (1/2) \<le> 0.42"
  using p_try_range [of "1/2"] by simp

text \<open>
  C1. When the confidence is below 0.55, or the budget is below 60, or \<open>prefers_long\<close> is
  the value \<open>False\<close>, \<open>render_reply\<close> returns the voice-decorated base text, whatever the
  candidates, the cooldowns and the random draw are (and the renderer only has its cooldowns
  decreased). Any other value of \<open>prefers_long\<close>, its absence included, is no veto: with
  enough confidence an eligible past link that fits is appended.
\<close>

theorem short_circuit_plain:
  "(confidence (pol e) < 0.55 \<or> budget_chars (style e) c < 60 \<or> get_prefers_long c = Some (PyBool False)
      \<longrightarrow> render_reply lower e s sem c
            = (decorate_with_voice lower (style e) (base_text sem), decrease_cooldowns s, arch e))
   \<and> (get_prefers_long c \<noteq> Some (PyBool False) \<and> confidence (pol e) \<ge> 0.55
      \<and> use_past (decrease_cooldowns s) c (fst (pick_relevant_moment lower (last_message c) c))
                 (snd (pick_relevant_moment lower (last_message c) c))
      \<and> int (length (past_snippet (fst (pick_relevant_moment lower (last_message c) c)))) \<le> budget_chars (style e) c
      \<longrightarrow> fst (render_reply lower e s sem c)
            = decorate_with_voice lower (style e) (base_text sem)
              @ past_snippet (fst (pick_relevant_moment lower (last_message c) c)))"
proof -
  have v: "is_False v \<longleftrightarrow> v = Some (PyBool False)" for v
    by (cases v rule: is_False.cases) simp_all
  have b: "\<not> budget_chars (style e) c < 60"
    by (simp add: budget_chars_def Let_def)
  show ?thesis
    by (simp add: render_reply_cases Let_def short_circuit_def v b conf_min_def)
qed

theorem short_circuit_plain_witness:
  "confidence (pol ex_env_low) < 0.55
   \<and> fst (render_reply lower_latin1 ex_env_low init ex_sem ex_ctx) = ascii ''Sure.''
   \<and> get_prefers_long ex_ctx = None
   \<and> fst (render_reply lower_latin1 ex_env init ex_sem ex_ctx)
       = ascii ''Sure.'' @ past_snippet (ascii ''the move'')"
proof -
  have h1: "confidence (pol ex_env_low) < 0.55" by code_simp
  have p1: "decorate_with_voice lower_latin1 (style ex_env_low) (base_text ex_sem) = ascii ''Sure.''"
    by code_simp
  have h2: "get_prefers_long ex_ctx = None" "confidence (pol ex_env) \<ge> 0.55" by code_simp+
  from short_circuit_plain [of ex_env_low ex_ctx lower_latin1 init ex_sem] h1 p1
  have a: "fst (render_reply lower_latin1 ex_env_low init ex_sem ex_ctx) = ascii ''Sure.''"
    by simp
  from short_circuit_plain [of ex_env ex_ctx lower_latin1 init ex_sem] h2 ex_pm ex_hyp ex_fit ex_plain
  have b: "fst (render_reply lower_latin1 ex_env init ex_sem ex_ctx)
       = ascii ''Sure.'' @ past_snippet (ascii ''the move'')"
    by simp
  from h1 a h2 b show ?thesis by simp
qed

text \<open>
  C2. The returned string is the decorated base text alone, or followed by the past-link
  snippet, or followed by the collocation snippet: never both. When the call is not
  short-circuited, the past link is eligible and its snippet fits the budget, the result is
  the decorated base text with that snippet, the past cooldown is 2, the text is recorded as
  the last one used, and nothing of the collocation or the recorder takes part: the
  collocation's cooldown and last text and the architecture are those before the choice.
\<close>

theorem at_most_one_ornament:
  "(fst (render_reply lower e s sem c) = decorate_with_voice lower (style e) (base_text sem)
    \<or> fst (render_reply lower e s sem c)
        = decorate_with_voice lower (style e) (base_text sem)
          @ past_snippet (fst (pick_relevant_moment lower (last_message c) c))
    \<or> fst (render_reply lower e s sem c)
        = decorate_with_voice lower (style e) (base_text sem)
          @ colloc_snippet (fst (pick_collocation lower (lex_sample e) c)))
   \<and> (\<not> short_circuit e c
      \<and> use_past (decrease_cooldowns s) c (fst (pick_relevant_moment lower (last_message c) c))
                 (snd (pick_relevant_moment lower (last_message c) c))
      \<and> int (length (past_snippet (fst (pick_relevant_moment lower (last_message c) c))))
          \<le> budget_chars (style e) c
      \<longrightarrow> render_reply lower e s sem c
           = (decorate_with_voice lower (style e) (base_text sem)
                @ past_snippet (fst (pick_relevant_moment lower (last_message c) c)),
              (decrease_cooldowns s)
                \<lparr>cooldown := (cooldown (decrease_cooldowns s))(Past := 2),
                 last_used := (last_used (decrease_cooldowns s))
                                (Past := fst (pick_relevant_moment lower (last_message c) c))\<rparr>,
              arch e))"
  by (simp add: render_reply_cases Let_def)

theorem at_most_one_ornament_witness:
  "\<not> short_circuit ex_env ex_ctx
   \<and> fst (render_reply lower_latin1 ex_env init ex_sem ex_ctx)
       = ascii ''Sure.'' @ past_snippet (ascii ''the move'')
   \<and> cooldown (fst (snd (render_reply lower_latin1 ex_env init ex_sem ex_ctx))) Past = 2
   \<and> last_used (fst (snd (render_reply lower_latin1 ex_env init ex_sem ex_ctx))) Past = ascii ''the move''
   \<and> snd (snd (render_reply lower_latin1 ex_env init ex_sem ex_ctx)) = arch ex_env"
  using at_most_one_ornament [of lower_latin1 ex_env init ex_sem ex_ctx] ex_nsc ex_pm ex_hyp ex_fit ex_plain
  by simp

text \<open>
  C3. The returned string is never empty and starts with the voice-decorated base text; the
  base text is the stripped \<open>text\<close> of the semantics, or the (non-empty) fallback sentence
  when that is absent or blank.
\<close>

theorem render_reply_prefix:
  "prefix (decorate_with_voice lower (style e) (base_text sem)) (fst (render_reply lower e s sem c))
   \<and> fst (render_reply lower e s sem c) \<noteq> []
   \<and> base_text sem = (if strip (or_empty (sem_text sem)) = [] then fallback
                       else strip (or_empty (sem_text sem)))
   \<and> fallback \<noteq> []"
proof -
  have "decorate_with_voice lower (style e) (base_text sem) \<noteq> []"
    by (rule decorate_nonempty) (rule base_text_nonempty)
  then show ?thesis
    by (simp add: render_reply_cases Let_def base_text_def fallback_nonempty)
qed

text \<open>
  C8. Every call first decreases each cooldown by 0.34, floored at 0: after the call the level
  of a kind is 2 when an ornament of that kind was appended and the decreased level otherwise,
  and an ornament is appended only when the decreased level is 0, so the decrease comes
  before eligibility. The level after a call is never negative, a non-negative level stays
  non-negative over any sequence of calls, and after N calls that appended nothing a
  non-negative level \<open>l\<close> has become \<open>max 0 (l - 0.34 * N)\<close>.
\<close>

theorem cooldown_decay:
  "cooldown (fst (snd (render_reply lower e s sem c))) Past
     = (if fst (render_reply lower e s sem c)
            = decorate_with_voice lower (style e) (base_text sem)
              @ past_snippet (fst (pick_relevant_moment lower (last_message c) c))
        then 2 else max 0 (cooldown s Past - 0.34))
   \<and> cooldown (fst (snd (render_reply lower e s sem c))) Colloc
     = (if fst (render_reply lower e s sem c)
            = decorate_with_voice lower (style e) (base_text sem)
              @ colloc_snippet (fst (pick_collocation lower (lex_sample e) c))
        then 2 else max 0 (cooldown s Colloc - 0.34))
   \<and> (fst (render_reply lower e s sem c)
         = decorate_with_voice lower (style e) (base_text sem)
           @ past_snippet (fst (pick_relevant_moment lower (last_message c) c))
       \<longrightarrow> max 0 (cooldown s Past - 0.34) \<le> 0)
   \<and> (fst (render_reply lower e s sem c)
         = decorate_with_voice lower (style e) (base_text sem)
           @ colloc_snippet (fst (pick_collocation lower (lex_sample e) c))
       \<longrightarrow> max 0 (cooldown s Colloc - 0.34) \<le> 0)
   \<and> 0 \<le> cooldown (fst (snd (render_reply lower e s sem c))) k
   \<and> (xs \<noteq> [] \<or> 0 \<le> cooldown s k \<longrightarrow> 0 \<le> cooldown (snd (run lower s xs)) k)
   \<and> (fst (run lower s xs) = map (plain lower) xs \<and> 0 \<le> cooldown s k
       \<longrightarrow> cooldown (snd (run lower s xs)) k = max 0 (cooldown s k - 0.34 * of_nat (length xs)))"
proof -
  have a: "cooldown (decrease_cooldowns s) j = max 0 (cooldown s j - 0.34)" for j
    by (simp add: decrease_cooldowns_def)
  have 1: "cooldown (fst (snd (render_reply lower e s sem c))) Past
     = (if fst (render_reply lower e s sem c)
            = decorate_with_voice lower (style e) (base_text sem)
              @ past_snippet (fst (pick_relevant_moment lower (last_message c) c))
        then 2 else max 0 (cooldown s Past - 0.34))"
    by (simp add: render_reply_cases Let_def a snippets_differ [symmetric] past_snippet_nonempty)
  have 2: "cooldown (fst (snd (render_reply lower e s sem c))) Colloc
     = (if fst (render_reply lower e s sem c)
            = decorate_with_voice lower (style e) (base_text sem)
              @ colloc_snippet (fst (pick_collocation lower (lex_sample e) c))
        then 2 else max 0 (cooldown s Colloc - 0.34))"
    by (simp add: render_reply_cases Let_def a snippets_differ colloc_snippet_nonempty)
  have 3: "fst (render_reply lower e s sem c)
         = decorate_with_voice lower (style e) (base_text sem)
           @ past_snippet (fst (pick_relevant_moment lower (last_message c) c))
       \<longrightarrow> max 0 (cooldown s Past - 0.34) \<le> 0"
    by (simp add: render_reply_cases Let_def use_past_def a snippets_differ [symmetric]
        past_snippet_nonempty split: if_splits)
  have 4: "fst (render_reply lower e s sem c)
         = decorate_with_voice lower (style e) (base_text sem)
           @ colloc_snippet (fst (pick_collocation lower (lex_sample e) c))
       \<longrightarrow> max 0 (cooldown s Colloc - 0.34) \<le> 0"
    by (simp add: render_reply_cases Let_def use_colloc_def a snippets_differ
        colloc_snippet_nonempty split: if_splits)
  have 5: "xs \<noteq> [] \<or> 0 \<le> cooldown s k \<longrightarrow> 0 \<le> cooldown (snd (run lower s xs)) k"
    using run_cooldown_nonneg [of xs s k lower] by blast
  have 6: "fst (run lower s xs) = map (plain lower) xs \<and> 0 \<le> cooldown s k
       \<longrightarrow> cooldown (snd (run lower s xs)) k = max 0 (cooldown s k - 0.34 * of_nat (length xs))"
  proof (cases "xs = []")
    case True
    then show ?thesis by simp
  next
    case False
    then show ?thesis using run_plain_decay [of lower s xs k] by blast
  qed
  from 1 2 3 4 5 6 render_reply_cooldown_nonneg [of lower e s sem c k] show ?thesis
    by blast
qed

theorem cooldown_decay_witness:
  "fst (run lower_latin1 ex_hot [ex_call_low, ex_call_low, ex_call_low])
     = map (plain lower_latin1) [ex_call_low, ex_call_low, ex_call_low]
   \<and> cooldown ex_hot Past = 1
   \<and> cooldown (snd (run lower_latin1 ex_hot [ex_call_low, ex_call_low, ex_call_low])) Past = 0
   \<and> cooldown ex_warm Past = 0.3
   \<and> fst (render_reply lower_latin1 ex_env ex_warm ex_sem ex_ctx)
       = ascii ''Sure.'' @ past_snippet (ascii ''the move'')
   \<and> cooldown (fst (snd (render_reply lower_latin1 ex_env ex_warm ex_sem ex_ctx))) Past = 2"
proof -
  have r: "fst (run lower_latin1 ex_hot [ex_call_low, ex_call_low, ex_call_low])
     = map (plain lower_latin1) [ex_call_low, ex_call_low, ex_call_low]"
    by (simp add: ex_low_run3)
  have h: "cooldown ex_hot Past = 1" "cooldown ex_warm Past = 0.3"
    by (simp_all add: ex_hot_def ex_warm_def init_def)
  have o: "fst (render_reply lower_latin1 ex_env ex_warm ex_sem ex_ctx)
       = ascii ''Sure.'' @ past_snippet (ascii ''the move'')"
    using ex_nsc ex_pm ex_hyp_warm ex_fit ex_plain by (simp add: render_reply_cases Let_def)
  note t1 = cooldown_decay [where lower = lower_latin1 and s = ex_hot and k = Past
      and xs = "[ex_call_low, ex_call_low, ex_call_low]"]
  note t2 = cooldown_decay [where lower = lower_latin1 and e = ex_env and s = ex_warm
      and sem = ex_sem and c = ex_ctx]
  from t1 r h have a: "cooldown (snd (run lower_latin1 ex_hot [ex_call_low, ex_call_low, ex_call_low])) Past = 0"
    by simp
  from t2 o ex_pm ex_plain
  have b: "cooldown (fst (snd (render_reply lower_latin1 ex_env ex_warm ex_sem ex_ctx))) Past = 2"
    by simp
  from r h a o b show ?thesis by simp
qed

end
